theory Spec2Isabelle
  imports Complex_Main "HOL-Library.Sublist"
begin

section \<open>JavaScript values\<close>

text \<open>
  The sanitizer of \<^verbatim>\<open>geminiService.ts\<close> receives \<^verbatim>\<open>data: any\<close>, the result of
  \<^verbatim>\<open>JSON.parse\<close>, so the payload is modelled as an untyped JavaScript value. A string is
  a list of code units (\<^typ>\<open>char\<close>, code points below 256); a number carries its finite
  value (both zeros are \<open>0\<close>); an object is the list of its own properties, the first
  binding of a key being the effective one. \<open>JUndefined\<close> is what a missing property
  reads as.
\<close>

datatype jsval =
    JUndefined
  | JNull
  | JBool bool
  | JNum rat
  | JStr string
  | JArr "jsval list"
  | JObj "(string \<times> jsval) list"

text \<open>Every \<^verbatim>\<open>throw\<close> of the source and the exceptions of the runtime are values.\<close>

datatype error =
    TypeError
  | ApiKeyMissing
  | EmptyResponse
  | NoJsonBlock
  | MalformedData
  | CallFailed

definition bindE :: "error + 'a \<Rightarrow> ('a \<Rightarrow> error + 'b) \<Rightarrow> error + 'b" where
  "bindE m f = (case m of Inl e \<Rightarrow> Inl e | Inr x \<Rightarrow> f x)"

text \<open>\<^verbatim>\<open>typeof v\<close>: \<^verbatim>\<open>null\<close>, arrays and objects all answer \<^verbatim>\<open>'object'\<close>.\<close>

fun typeof :: "jsval \<Rightarrow> string" where
  "typeof JUndefined = ''undefined''"
| "typeof JNull = ''object''"
| "typeof (JBool b) = ''boolean''"
| "typeof (JNum n) = ''number''"
| "typeof (JStr s) = ''string''"
| "typeof (JArr xs) = ''object''"
| "typeof (JObj kvs) = ''object''"

text \<open>Truthiness, as \<^verbatim>\<open>!v\<close>, \<^verbatim>\<open>v && w\<close> and \<^verbatim>\<open>v || w\<close> test it.\<close>

fun truthy :: "jsval \<Rightarrow> bool" where
  "truthy JUndefined = False"
| "truthy JNull = False"
| "truthy (JBool b) = b"
| "truthy (JNum n) = (n \<noteq> 0)"
| "truthy (JStr s) = (s \<noteq> [])"
| "truthy (JArr xs) = True"
| "truthy (JObj kvs) = True"

text \<open>\<^verbatim>\<open>v || d\<close>\<close>

definition orElse :: "jsval \<Rightarrow> jsval \<Rightarrow> jsval" where
  "orElse v d = (if truthy v then v else d)"

definition nullish :: "jsval \<Rightarrow> bool" where
  "nullish v = (v = JNull \<or> v = JUndefined)"

text \<open>
  Reading a property \<^verbatim>\<open>v.k\<close> of a value that is neither \<^verbatim>\<open>null\<close> nor
  \<^verbatim>\<open>undefined\<close>. The keys read by the source are the field names of the plan's schema;
  none of them is an own or inherited property of an array or of a primitive.
\<close>

fun propOf :: "jsval \<Rightarrow> string \<Rightarrow> jsval" where
  "propOf (JObj kvs) k = (case map_of kvs k of Some v \<Rightarrow> v | None \<Rightarrow> JUndefined)"
| "propOf v k = JUndefined"

text \<open>\<^verbatim>\<open>v.k\<close> in general: a property read of \<^verbatim>\<open>null\<close> or \<^verbatim>\<open>undefined\<close> throws.\<close>

definition getProp :: "jsval \<Rightarrow> string \<Rightarrow> error + jsval" where
  "getProp v k = (if nullish v then Inl TypeError else Inr (propOf v k))"

text \<open>
  \<^verbatim>\<open>Array.prototype.filter\<close> and \<^verbatim>\<open>map\<close> with a callback that may throw: the elements
  are visited in order and the first exception ends the call.
\<close>

fun filterE :: "('a \<Rightarrow> error + bool) \<Rightarrow> 'a list \<Rightarrow> error + 'a list" where
  "filterE p [] = Inr []"
| "filterE p (x # xs) =
     bindE (p x) (\<lambda>b. bindE (filterE p xs) (\<lambda>ys. Inr (if b then x # ys else ys)))"

fun mapE :: "('a \<Rightarrow> error + 'b) \<Rightarrow> 'a list \<Rightarrow> error + 'b list" where
  "mapE f [] = Inr []"
| "mapE f (x # xs) = bindE (f x) (\<lambda>y. bindE (mapE f xs) (\<lambda>ys. Inr (y # ys)))"

section \<open>The plan and its sanitizer\<close>

text \<open>
  TypeScript's interfaces are erased at run time: a field of the sanitized plan holds
  whatever value the sanitizer put there. A field is given a HOL type only where the
  code itself fixes it (a list after \<^verbatim>\<open>Array.isArray\<close>, the \<^verbatim>\<open>summary\<close> string).
\<close>

record GroundingSource =
  title :: string
  url :: string

record AllocationItem =
  ticker :: jsval
  name :: jsval
  sector :: jsval
  percentage :: jsval
  type :: jsval
  rationale :: jsval
  accountType :: jsval
  dividendYield :: jsval
  technicalAnalysis :: jsval
  marketSentiment :: jsval

record InvestmentPlan =
  summary :: string
  riskAnalysis :: jsval
  actionableSteps :: "jsval list"
  swot :: jsval
  allocations :: "AllocationItem list"
  projections :: "jsval list"
  sources :: "GroundingSource list"
  marketAnalysis :: jsval
  secEvents :: "jsval list"
  sectorTrends :: "jsval list"
  portfolioAnalysis :: jsval

definition defaultTechnicalAnalysis :: jsval where
  "defaultTechnicalAnalysis =
     JObj [(''summary'', JStr ''No technical analysis provided.''),
           (''support'', JStr ''-''),
           (''resistance'', JStr ''-''),
           (''indicatorSignal'', JStr ''-'')]"

definition defaultMarketSentiment :: jsval where
  "defaultMarketSentiment =
     JObj [(''score'', JStr ''Neutral''),
           (''summary'', JStr ''No sentiment analysis provided.''),
           (''analystRating'', JStr ''-'')]"

definition defaultSwot :: jsval where
  "defaultSwot =
     JObj [(''strengths'', JArr []), (''weaknesses'', JArr []),
           (''opportunities'', JArr []), (''threats'', JArr [])]"

definition defaultMarketAnalysis :: jsval where
  "defaultMarketAnalysis =
     JObj [(''macroOutlook'', JStr ''''), (''inflationForecast'', JStr ''''),
           (''interestRateView'', JStr '''')]"

text \<open>\<^verbatim>\<open>(typeof v === 'object' && v)\<close>, as a condition.\<close>

definition objectAndTruthy :: "jsval \<Rightarrow> bool" where
  "objectAndTruthy v = (typeof v = ''object'' \<and> truthy v)"

text \<open>The filter callback \<^verbatim>\<open>(a) => typeof a === 'object' && a.ticker\<close>.\<close>

definition keepAllocation :: "jsval \<Rightarrow> error + bool" where
  "keepAllocation a =
     (if typeof a = ''object'' then bindE (getProp a ''ticker'') (\<lambda>t. Inr (truthy t))
      else Inr False)"

text \<open>
  The map callback. Every read is a property of the same \<^verbatim>\<open>a\<close>, so the callback throws
  exactly when \<^verbatim>\<open>a\<close> is \<^verbatim>\<open>null\<close> or \<^verbatim>\<open>undefined\<close>, at its first read.
\<close>

definition toAllocationItem :: "jsval \<Rightarrow> error + AllocationItem" where
  "toAllocationItem a =
     (if nullish a then Inl TypeError
      else Inr \<lparr>
        ticker = orElse (propOf a ''ticker'') (JStr ''N/A''),
        name = orElse (propOf a ''name'') (JStr ''N/A''),
        sector = orElse (propOf a ''sector'') (JStr ''N/A''),
        percentage = orElse (propOf a ''percentage'') (JNum 0),
        type = orElse (propOf a ''type'') (JStr ''ETF''),
        rationale = orElse (propOf a ''rationale'') (JStr ''No rationale provided.''),
        accountType = orElse (propOf a ''accountType'') (JStr ''Brokerage''),
        dividendYield = propOf a ''dividendYield'',
        technicalAnalysis =
          (if objectAndTruthy (propOf a ''technicalAnalysis'')
           then propOf a ''technicalAnalysis'' else defaultTechnicalAnalysis),
        marketSentiment =
          (if objectAndTruthy (propOf a ''marketSentiment'')
           then propOf a ''marketSentiment'' else defaultMarketSentiment) \<rparr>)"

text \<open>The statement \<^verbatim>\<open>const allocations = Array.isArray(data.allocations) ? ... : []\<close>.\<close>

definition sanitizeAllocations :: "jsval \<Rightarrow> error + AllocationItem list" where
  "sanitizeAllocations data =
     bindE (getProp data ''allocations'') (\<lambda>v.
       case v of
         JArr xs \<Rightarrow> bindE (filterE keepAllocation xs) (mapE toAllocationItem)
       | _ \<Rightarrow> Inr [])"

text \<open>The filter callback \<^verbatim>\<open>p => typeof p === 'object' && p.year\<close>.\<close>

definition keepProjection :: "jsval \<Rightarrow> error + bool" where
  "keepProjection p =
     (if typeof p = ''object'' then bindE (getProp p ''year'') (\<lambda>y. Inr (truthy y))
      else Inr False)"

definition sanitizeProjections :: "jsval \<Rightarrow> error + jsval list" where
  "sanitizeProjections data =
     bindE (getProp data ''projections'') (\<lambda>v.
       case v of JArr ps \<Rightarrow> filterE keepProjection ps | _ \<Rightarrow> Inr [])"

text \<open>\<^verbatim>\<open>Array.isArray(v) ? v.filter(e => typeof e === 'object') : []\<close>\<close>

definition objectsOf :: "jsval \<Rightarrow> jsval list" where
  "objectsOf v =
     (case v of JArr es \<Rightarrow> filter (\<lambda>e. typeof e = ''object'') es | _ \<Rightarrow> [])"

text \<open>\<^verbatim>\<open>Array.isArray(v) ? v : []\<close>\<close>

definition arrayOrEmpty :: "jsval \<Rightarrow> jsval list" where
  "arrayOrEmpty v = (case v of JArr es \<Rightarrow> es | _ \<Rightarrow> [])"

text \<open>
  \<^verbatim>\<open>validateAndSanitizePlan\<close>. The allocations are computed first and read
  \<^verbatim>\<open>data.allocations\<close>, which throws when \<^verbatim>\<open>data\<close> is \<^verbatim>\<open>null\<close>; after it the
  reads of \<^verbatim>\<open>data\<close> in the object literal cannot throw, and the only other
  expression that can is the filter of the projections. Every exception here is a
  \<open>TypeError\<close>, so the place of that filter among the fields does not show in the result.
\<close>

definition validateAndSanitizePlan :: "jsval \<Rightarrow> string \<Rightarrow> error + InvestmentPlan" where
  "validateAndSanitizePlan data summary' =
     bindE (sanitizeAllocations data) (\<lambda>allocs.
     bindE (sanitizeProjections data) (\<lambda>projs.
       Inr \<lparr>
         summary = (if summary' \<noteq> [] then summary' else ''No summary provided.''),
         riskAnalysis = orElse (propOf data ''riskAnalysis'') (JStr ''''),
         actionableSteps = arrayOrEmpty (propOf data ''actionableSteps''),
         swot = (if objectAndTruthy (propOf data ''swot'')
                 then propOf data ''swot'' else defaultSwot),
         allocations = allocs,
         projections = projs,
         sources = [],
         marketAnalysis = (if objectAndTruthy (propOf data ''marketAnalysis'')
                           then propOf data ''marketAnalysis'' else defaultMarketAnalysis),
         secEvents = objectsOf (propOf data ''secEvents''),
         sectorTrends = objectsOf (propOf data ''sectorTrends''),
         portfolioAnalysis =
           (if typeof (propOf data ''portfolioAnalysis'') = ''object''
            then propOf data ''portfolioAnalysis'' else JUndefined) \<rparr>))"


section \<open>Strings\<close>

text \<open>
  \<^verbatim>\<open>String.prototype.trim\<close> removes white space at both ends; below code point 256 the
  white space of ECMAScript is TAB, LF, VT, FF, CR, SP and NBSP.
\<close>

definition isWhiteSpace :: "char \<Rightarrow> bool" where
  "isWhiteSpace c =
     (c \<in> {CHR 0x09, CHR 0x0A, CHR 0x0B, CHR 0x0C, CHR 0x0D, CHR 0x20, CHR 0xA0})"

definition trim :: "string \<Rightarrow> string" where
  "trim s = rev (dropWhile isWhiteSpace (rev (dropWhile isWhiteSpace s)))"

text \<open>\<^verbatim>\<open>s.indexOf(pat)\<close>: the first position where \<open>pat\<close> occurs, \<open>-1\<close> when none.\<close>

fun indexOf :: "string \<Rightarrow> string \<Rightarrow> int" where
  "indexOf [] pat = (if pat = [] then 0 else - 1)"
| "indexOf (c # cs) pat =
     (if prefix pat (c # cs) then 0
      else (let i = indexOf cs pat in if i < 0 then - 1 else i + 1))"

text \<open>
  \<^verbatim>\<open>s.substring(a, b)\<close>: both arguments are clamped to \<open>0 .. length s\<close> and swapped
  when \<open>a > b\<close>, so \<^verbatim>\<open>s.substring(0, -1)\<close> is the empty string.
\<close>

definition substring :: "string \<Rightarrow> int \<Rightarrow> int \<Rightarrow> string" where
  "substring s a b =
     (let n = int (length s);
          a' = max 0 (min a n);
          b' = max 0 (min b n)
      in take (nat (max a' b' - min a' b')) (drop (nat (min a' b')) s))"

definition jsonFence :: string where
  "jsonFence = [CHR 0x60, CHR 0x60, CHR 0x60, CHR ''j'', CHR ''s'', CHR ''o'', CHR ''n'']"

definition closingFence :: string where
  "closingFence = [CHR 0x60, CHR 0x60, CHR 0x60]"

text \<open>The last position at which the closing fence (three backquotes) occurs.\<close>

fun lastFence :: "string \<Rightarrow> nat option" where
  "lastFence [] = None"
| "lastFence (c # cs) =
     (case lastFence cs of
        Some j \<Rightarrow> Some (Suc j)
      | None \<Rightarrow> if prefix closingFence (c # cs) then Some 0 else None)"

text \<open>
  The first group of \<^verbatim>\<open>responseText.match(/```json([\s\S]*)```/)\<close>, \<open>None\<close> when there is
  no match. The match starts at the leftmost opening fence that has a closing fence after
  it; an opening fence itself begins with three backquotes, so that is the first opening
  fence or none. The group \<^verbatim>\<open>[\s\S]*\<close> is greedy over every character: it reaches to the
  last closing fence.
\<close>

definition matchJsonBlock :: "string \<Rightarrow> string option" where
  "matchJsonBlock t =
     (let i = indexOf t jsonFence
      in if i < 0 then None
         else (let rest = drop (nat i + length jsonFence) t
               in case lastFence rest of
                    None \<Rightarrow> None
                  | Some j \<Rightarrow> Some (take j rest)))"

section \<open>Plan generation\<close>

text \<open>
  The response of the external service, as far as the source reads it:
  \<^verbatim>\<open>response.text\<close> (a string or \<^verbatim>\<open>undefined\<close>) and the grounding chunks of the first
  candidate, each with an optional \<^verbatim>\<open>web\<close> record of an optional \<^verbatim>\<open>uri\<close> and
  \<^verbatim>\<open>title\<close>.
\<close>

datatype WebRef = WebRef (uri: "string option") (webTitle: "string option")

record GroundingChunk =
  web :: "WebRef option"

record GenerateContentResponse =
  responseText :: "string option"
  groundingChunks :: "GroundingChunk list option"

definition getClient :: "string \<Rightarrow> error + string" where
  "getClient key = (if key = [] then Inl ApiKeyMissing else Inr key)"

text \<open>
  \<^verbatim>\<open>if (chunk.web?.uri && chunk.web?.title) sources.push({ url, title })\<close> over the chunks.
\<close>

definition chunkSource :: "GroundingChunk \<Rightarrow> GroundingSource list" where
  "chunkSource chunk =
     (case web chunk of
        Some (WebRef (Some u) (Some t)) \<Rightarrow>
          if u \<noteq> [] \<and> t \<noteq> [] then [\<lparr>title = t, url = u\<rparr>] else []
      | _ \<Rightarrow> [])"

definition groundingSources :: "GroundingChunk list option \<Rightarrow> GroundingSource list" where
  "groundingSources chunks =
     (case chunks of None \<Rightarrow> [] | Some cs \<Rightarrow> concat (map chunkSource cs))"

text \<open>
  The body of \<^verbatim>\<open>generateInvestmentStrategy\<close> after the awaited call.
  \<^verbatim>\<open>JSON.parse\<close> belongs to the runtime and is a parameter: \<open>None\<close> is its
  \<^verbatim>\<open>SyntaxError\<close>.
\<close>

definition planFromResponse ::
  "(string \<Rightarrow> jsval option) \<Rightarrow> GenerateContentResponse \<Rightarrow> error + InvestmentPlan" where
  "planFromResponse jsonParse response =
     (case responseText response of
        None \<Rightarrow> Inl EmptyResponse
      | Some t \<Rightarrow>
          if t = [] then Inl EmptyResponse
          else
            (let summary' = trim (substring t 0 (indexOf t jsonFence))
             in case matchJsonBlock t of
                  None \<Rightarrow> Inl NoJsonBlock
                | Some block \<Rightarrow>
                    if block = [] then Inl NoJsonBlock
                    else
                      (case jsonParse (trim block) of
                         None \<Rightarrow> Inl MalformedData
                       | Some parsedJson \<Rightarrow>
                           bindE (validateAndSanitizePlan parsedJson summary')
                             (\<lambda>sanitizedPlan. Inr (sanitizedPlan
                                \<lparr>sources := groundingSources (groundingChunks response)\<rparr>)))))"

text \<open>
  \<^verbatim>\<open>generateInvestmentStrategy\<close>. The request to the service is a parameter: it takes the
  client's key and the profile (from which the source builds the prompt) and either
  fails or returns a response.
\<close>

definition generateInvestmentStrategy ::
  "(string \<Rightarrow> jsval option) \<Rightarrow> (string \<Rightarrow> 'profile \<Rightarrow> error + GenerateContentResponse)
     \<Rightarrow> 'profile \<Rightarrow> string \<Rightarrow> error + InvestmentPlan" where
  "generateInvestmentStrategy jsonParse generateContent profile key =
     bindE (getClient key) (\<lambda>ai.
     bindE (generateContent ai profile) (planFromResponse jsonParse))"

section \<open>Credential verification\<close>

text \<open>
  \<^verbatim>\<open>verifyApiKey\<close>. The validation request is a parameter; its result is an untyped
  value, since the source checks its shape itself. The second component of the result
  counts the requests issued. The key is a string, so the test
  \<^verbatim>\<open>typeof apiKey !== 'string'\<close> of the first guard is always false. Everything
  after that guard runs inside \<^verbatim>\<open>try\<close>, whose handler returns \<^verbatim>\<open>false\<close>.
\<close>

definition validResult :: "jsval \<Rightarrow> bool" where
  "validResult result =
     (truthy result \<and> typeof (propOf result ''text'') = ''string'' \<and>
      (case propOf result ''text'' of JStr s \<Rightarrow> length s > 0 | _ \<Rightarrow> False))"

definition verifyApiKey :: "(string \<Rightarrow> error + jsval) \<Rightarrow> string \<Rightarrow> (error + bool) \<times> nat" where
  "verifyApiKey generateContent key =
     (if key = [] \<or> length (trim key) = 0 then (Inr False, 0)
      else
        (case getClient key of
           Inl e \<Rightarrow> (Inr False, 0)
         | Inr ai \<Rightarrow>
             (case generateContent ai of
                Inl e \<Rightarrow> (Inr False, 1)
              | Inr result \<Rightarrow> (Inr (validResult result), 1))))"

section \<open>Application state and local storage\<close>

text \<open>
  The state of \<^verbatim>\<open>App\<close> (its four \<^verbatim>\<open>useState\<close> cells) together with the browser's
  local storage, a map from keys to strings. The plan cell holds \<^verbatim>\<open>null\<close>, the empty
  object \<^verbatim>\<open>{}\<close> shown while loading, or a generated plan.
\<close>

type_synonym storage = "string \<rightharpoonup> string"

datatype PlanView = Skeleton | Generated InvestmentPlan

record AppState =
  apiKey :: "string option"
  plan :: "PlanView option"
  loading :: bool
  error :: "string option"
  localStorage :: storage

definition apiKeyItem :: string where
  "apiKeyItem = ''steward_ai_api_key''"

definition chatHistoryItem :: string where
  "chatHistoryItem = ''steward_ai_chat_history''"

definition handleApiKeySave :: "string \<Rightarrow> AppState \<Rightarrow> AppState" where
  "handleApiKeySave key s =
     s\<lparr>localStorage := (localStorage s)(apiKeyItem \<mapsto> key), apiKey := Some key\<rparr>"

definition resetApp :: "AppState \<Rightarrow> AppState" where
  "resetApp s = s\<lparr>plan := None, error := None, loading := False\<rparr>"

definition handleApiKeyClear :: "AppState \<Rightarrow> AppState" where
  "handleApiKeyClear s =
     resetApp (s\<lparr>localStorage := (localStorage s)(apiKeyItem := None), apiKey := None\<rparr>)"

section \<open>Chat history\<close>

text \<open>
  The state of \<^verbatim>\<open>AgentChat\<close> is declared \<^verbatim>\<open>ChatMessage[]\<close>: a role, a text and
  optional sources. The component is modelled on states of that type; \<open>messageObject\<close>
  is the object a message is at run time, with its keys in the order of the literals
  of the source, and \<open>historyValue\<close> the array that \<^verbatim>\<open>JSON.stringify\<close> is given.
  What the component renders when the stored text parses to a value that is not such an
  array is not modelled: only the load effect is defined on every stored text.
  \<^verbatim>\<open>JSON.parse\<close> and \<^verbatim>\<open>JSON.stringify\<close> belong to the runtime and are parameters.
\<close>

datatype Role = User | Model

record ChatMessage =
  role :: Role
  text' :: string
  sources' :: "GroundingSource list option"

definition roleName :: "Role \<Rightarrow> string" where
  "roleName r = (case r of User \<Rightarrow> ''user'' | Model \<Rightarrow> ''model'')"

definition sourceObject :: "GroundingSource \<Rightarrow> jsval" where
  "sourceObject src = JObj [(''title'', JStr (title src)), (''url'', JStr (url src))]"

definition messageObject :: "ChatMessage \<Rightarrow> jsval" where
  "messageObject m =
     JObj ([(''role'', JStr (roleName (role m))), (''text'', JStr (text' m))] @
           (case sources' m of
              None \<Rightarrow> []
            | Some srcs \<Rightarrow> [(''sources'', JArr (map sourceObject srcs))]))"

definition historyValue :: "ChatMessage list \<Rightarrow> jsval" where
  "historyValue messages = JArr (map messageObject messages)"

text \<open>The messages the source creates: the greeting and those \<^verbatim>\<open>handleSend\<close> appends.\<close>

definition greeting :: ChatMessage where
  "greeting =
     \<lparr>role = Model,
      text' = ''I have reviewed your legacy plan. The principles are sound '' @
        ''and the strategy is aligned with your long-term goals. '' @
        ''How may I provide clarity or guidance?'',
      sources' = None\<rparr>"

definition userMessage :: "string \<Rightarrow> ChatMessage" where
  "userMessage userMsg = \<lparr>role = User, text' = userMsg, sources' = None\<rparr>"

definition modelMessage :: "string \<Rightarrow> GroundingSource list \<Rightarrow> ChatMessage" where
  "modelMessage responseText' srcs =
     \<lparr>role = Model, text' = responseText', sources' = Some srcs\<rparr>"

definition apologyMessage :: ChatMessage where
  "apologyMessage =
     \<lparr>role = Model,
      text' = ''Apologies, there was a data stream interruption. '' @
        ''Please re-submit your query.'',
      sources' = None\<rparr>"

text \<open>
  The load effect: the value given to \<^verbatim>\<open>setMessages\<close>, which is whatever
  \<^verbatim>\<open>JSON.parse\<close> returned when it returned.
\<close>

definition loadHistory :: "(string \<Rightarrow> jsval option) \<Rightarrow> storage \<Rightarrow> jsval" where
  "loadHistory jsonParse st =
     (case st chatHistoryItem of
        None \<Rightarrow> historyValue [greeting]
      | Some storedHistory \<Rightarrow>
          if storedHistory = [] then historyValue [greeting]
          else (case jsonParse storedHistory of
                  Some parsed \<Rightarrow> parsed
                | None \<Rightarrow> historyValue [greeting]))"

text \<open>The save effect, run after every change of the messages.\<close>

definition saveHistory :: "(jsval \<Rightarrow> string) \<Rightarrow> ChatMessage list \<Rightarrow> storage \<Rightarrow> storage" where
  "saveHistory jsonStringify messages st =
     (if length messages > 0 then st(chatHistoryItem \<mapsto> jsonStringify (historyValue messages))
      else st)"

text \<open>\<^verbatim>\<open>setMessages(prev => [...prev, m])\<close> and the save effect it triggers.\<close>

definition appendMessage ::
  "(jsval \<Rightarrow> string) \<Rightarrow> ChatMessage \<Rightarrow> ChatMessage list \<times> storage
     \<Rightarrow> ChatMessage list \<times> storage" where
  "appendMessage jsonStringify m c =
     (let messages = fst c @ [m] in (messages, saveHistory jsonStringify messages (snd c)))"

fun appendMessages ::
  "(jsval \<Rightarrow> string) \<Rightarrow> ChatMessage list \<Rightarrow> ChatMessage list \<times> storage
     \<Rightarrow> ChatMessage list \<times> storage" where
  "appendMessages jsonStringify [] c = c"
| "appendMessages jsonStringify (m # ms) c =
     appendMessages jsonStringify ms (appendMessage jsonStringify m c)"

text \<open>
  A session of the component whose load effect has set the messages to \<open>h\<close>: the save
  effect runs for \<open>h\<close>, then the messages \<open>ms\<close> are appended one by one.
\<close>

definition chatSession ::
  "(jsval \<Rightarrow> string) \<Rightarrow> ChatMessage list \<Rightarrow> ChatMessage list \<Rightarrow> storage
     \<Rightarrow> ChatMessage list \<times> storage" where
  "chatSession jsonStringify h ms st =
     appendMessages jsonStringify ms (h, saveHistory jsonStringify h st)"

section \<open>Notions used in the statements\<close>

text \<open>\<^verbatim>\<open>Array.isArray\<close>\<close>

definition isArray :: "jsval \<Rightarrow> bool" where
  "isArray v = (case v of JArr es \<Rightarrow> True | _ \<Rightarrow> False)"

text \<open>
  A field holds no sub-object: it is missing (\<open>JUndefined\<close>), \<^verbatim>\<open>null\<close> or a primitive.
  Arrays are objects in JavaScript.
\<close>

definition lacksObject :: "jsval \<Rightarrow> bool" where
  "lacksObject v = (case v of JObj kvs \<Rightarrow> False | JArr es \<Rightarrow> False | _ \<Rightarrow> True)"

text \<open>The entries of a payload list that pass the filter of the allocations.\<close>

definition keptAllocations :: "jsval list \<Rightarrow> jsval list" where
  "keptAllocations xs = filter (\<lambda>a. keepAllocation a = Inr True) xs"

section \<open>Auxiliary facts\<close>

lemma bindE_simps [simp]: "bindE (Inl e) f = Inl e" "bindE (Inr x) f = f x"
  by (simp_all add: bindE_def)

lemma keepAllocation_eq:
  "keepAllocation a =
     (if a = JNull then Inl TypeError
      else Inr (typeof a = ''object'' \<and> truthy (propOf a ''ticker'')))"
  by (cases a) (simp_all add: keepAllocation_def getProp_def nullish_def)

lemma keepProjection_eq:
  "keepProjection p =
     (if p = JNull then Inl TypeError
      else Inr (typeof p = ''object'' \<and> truthy (propOf p ''year'')))"
  by (cases p) (simp_all add: keepProjection_def getProp_def nullish_def)

lemma filterE_keepAllocation:
  "filterE keepAllocation xs =
     (if JNull \<in> set xs then Inl TypeError else Inr (keptAllocations xs))"
  by (induction xs) (auto simp: keptAllocations_def keepAllocation_eq)

lemma filterE_keepProjection:
  "filterE keepProjection ps =
     (if JNull \<in> set ps then Inl TypeError
      else Inr (filter (\<lambda>p. keepProjection p = Inr True) ps))"
  by (induction ps) (auto simp: keepProjection_eq)

lemma kept_not_nullish: "a \<in> set (keptAllocations xs) \<Longrightarrow> \<not> nullish a"
  by (auto simp: keptAllocations_def keepAllocation_eq nullish_def split: if_splits)

lemma mapE_total:
  "(\<And>x. x \<in> set xs \<Longrightarrow> \<exists>y. f x = Inr y) \<Longrightarrow> mapE f xs = Inr (map (\<lambda>x. projr (f x)) xs)"
proof (induction xs)
  case Nil
  show ?case by simp
next
  case (Cons x xs)
  from Cons.prems obtain y where "f x = Inr y" by auto
  moreover have "mapE f xs = Inr (map (\<lambda>x. projr (f x)) xs)"
    using Cons by simp
  ultimately show ?case by simp
qed

lemma mapE_kept:
  "mapE toAllocationItem (keptAllocations xs) =
     Inr (map (\<lambda>a. projr (toAllocationItem a)) (keptAllocations xs))"
  by (rule mapE_total) (auto simp: toAllocationItem_def dest: kept_not_nullish)

lemma sanitizeAllocations_array:
  "getProp data ''allocations'' = Inr (JArr xs) \<Longrightarrow>
   sanitizeAllocations data =
     (if JNull \<in> set xs then Inl TypeError
      else Inr (map (\<lambda>a. projr (toAllocationItem a)) (keptAllocations xs)))"
  by (simp add: sanitizeAllocations_def filterE_keepAllocation mapE_kept)

lemma sanitizeAllocations_not_array:
  "getProp data ''allocations'' = Inr v \<Longrightarrow> \<not> isArray v \<Longrightarrow> sanitizeAllocations data = Inr []"
  by (cases v) (simp_all add: sanitizeAllocations_def isArray_def)

lemma validate_allocations:
  "sanitizeAllocations data = Inr items \<Longrightarrow>
   (case validateAndSanitizePlan data s of
      Inr p \<Rightarrow> allocations p = items
    | Inl e \<Rightarrow> sanitizeProjections data = Inl e)"
  by (cases "sanitizeProjections data") (simp_all add: validateAndSanitizePlan_def)

lemma validate_allocations_fail:
  "sanitizeAllocations data = Inl e \<Longrightarrow> validateAndSanitizePlan data s = Inl e"
  by (simp add: validateAndSanitizePlan_def)

lemma objectAndTruthy_iff: "objectAndTruthy v \<longleftrightarrow> \<not> lacksObject v"
  by (cases v) (simp_all add: objectAndTruthy_def lacksObject_def)

lemma toAllocationItem_placeholder:
  "toAllocationItem a = Inr item \<Longrightarrow> lacksObject (propOf a ''technicalAnalysis'') \<Longrightarrow>
   technicalAnalysis item =
     JObj [(''summary'', JStr ''No technical analysis provided.''),
           (''support'', JStr ''-''), (''resistance'', JStr ''-''),
           (''indicatorSignal'', JStr ''-'')]"
  by (auto simp: toAllocationItem_def objectAndTruthy_iff defaultTechnicalAnalysis_def
      split: if_splits)

lemma trim_Nil_iff: "trim s = [] \<longleftrightarrow> (\<forall>c \<in> set s. isWhiteSpace c)"
proof
  assume "trim s = []"
  then have all: "\<forall>c \<in> set (dropWhile isWhiteSpace s). isWhiteSpace c"
    by (simp add: trim_def dropWhile_eq_Nil_conv)
  have "dropWhile isWhiteSpace s = []"
  proof (rule ccontr)
    assume ne: "dropWhile isWhiteSpace s \<noteq> []"
    then have "\<not> isWhiteSpace (hd (dropWhile isWhiteSpace s))"
      by (rule hd_dropWhile)
    moreover from ne have "hd (dropWhile isWhiteSpace s) \<in> set (dropWhile isWhiteSpace s)"
      by (rule hd_in_set)
    ultimately show False using all by blast
  qed
  then show "\<forall>c \<in> set s. isWhiteSpace c"
    by (simp only: dropWhile_eq_Nil_conv)
next
  assume "\<forall>c \<in> set s. isWhiteSpace c"
  then have "dropWhile isWhiteSpace s = []"
    by (simp only: dropWhile_eq_Nil_conv)
  then show "trim s = []" by (simp add: trim_def del: dropWhile_eq_Nil_conv)
qed

lemma validResult_iff:
  "validResult r \<longleftrightarrow> (\<exists>t. propOf r ''text'' = JStr t \<and> t \<noteq> [])"
proof (cases r)
  case (JObj kvs)
  then show ?thesis
    by (cases "propOf (JObj kvs) ''text''") (simp_all add: validResult_def)
qed (simp_all add: validResult_def)

lemma sanitizeProjections_eq:
  "sanitizeProjections data =
     (if nullish data then Inl TypeError
      else case propOf data ''projections'' of
             JArr ps \<Rightarrow>
               if JNull \<in> set ps then Inl TypeError
               else Inr (filter (\<lambda>p. keepProjection p = Inr True) ps)
           | _ \<Rightarrow> Inr [])"
  by (cases "propOf data ''projections''")
     (simp_all add: sanitizeProjections_def getProp_def filterE_keepProjection)

lemma sanitizeAllocations_eq:
  "sanitizeAllocations data =
     (if nullish data then Inl TypeError
      else case propOf data ''allocations'' of
             JArr xs \<Rightarrow>
               if JNull \<in> set xs then Inl TypeError
               else Inr (map (\<lambda>a. projr (toAllocationItem a)) (keptAllocations xs))
           | _ \<Rightarrow> Inr [])"
  by (cases "propOf data ''allocations''")
     (simp_all add: sanitizeAllocations_def getProp_def filterE_keepAllocation mapE_kept)

text \<open>
  The sanitizer returns a plan exactly on the payloads that are neither \<^verbatim>\<open>null\<close> nor
  \<^verbatim>\<open>undefined\<close> and have no \<^verbatim>\<open>null\<close> entry in an \<^verbatim>\<open>allocations\<close> or
  \<^verbatim>\<open>projections\<close> array; on every other payload it throws a \<open>TypeError\<close>.
\<close>

lemma validateAndSanitizePlan_returns_iff:
  "(\<exists>p. validateAndSanitizePlan data s = Inr p) \<longleftrightarrow>
     \<not> nullish data \<and>
     (\<forall>xs. propOf data ''allocations'' = JArr xs \<longrightarrow> JNull \<notin> set xs) \<and>
     (\<forall>ps. propOf data ''projections'' = JArr ps \<longrightarrow> JNull \<notin> set ps)"
  by (cases "propOf data ''allocations''"; cases "propOf data ''projections''")
     (simp_all add: validateAndSanitizePlan_def sanitizeAllocations_eq sanitizeProjections_eq)

lemma validateAndSanitizePlan_throws:
  "validateAndSanitizePlan data s = Inl e \<Longrightarrow> e = TypeError"
  by (cases "propOf data ''allocations''"; cases "propOf data ''projections''")
     (auto simp: validateAndSanitizePlan_def sanitizeAllocations_eq sanitizeProjections_eq
        split: if_splits)

text \<open>The sanitizer never makes up a portfolio analysis: it keeps the payload's or none.\<close>

lemma portfolioAnalysis_not_synthesized:
  "validateAndSanitizePlan data s = Inr p \<Longrightarrow>
   portfolioAnalysis p = JUndefined \<or> portfolioAnalysis p = propOf data ''portfolioAnalysis''"
  by (cases "sanitizeAllocations data"; cases "sanitizeProjections data")
     (auto simp: validateAndSanitizePlan_def)

section \<open>The sanitizer on malformed payloads\<close>

text \<open>
  C1 states that \<^verbatim>\<open>validateAndSanitizePlan\<close> returns, for a payload of any shape, a plan
  whose fields all have their declared types, and never fails. The source does not do
  so. Its filter callbacks test \<^verbatim>\<open>typeof a === 'object'\<close> before reading
  \<^verbatim>\<open>a.ticker\<close> (\<^verbatim>\<open>p.year\<close>), and \<^verbatim>\<open>typeof null\<close> is \<^verbatim>\<open>'object'\<close>: on the payload
  \<^verbatim>\<open>{"allocations":[null]}\<close>, on \<^verbatim>\<open>{"projections":[null]}\<close> and on the payload
  \<^verbatim>\<open>null\<close> itself the sanitizer throws a \<open>TypeError\<close>. And a truthy value of the wrong
  type is kept: on \<^verbatim>\<open>{"riskAnalysis":5}\<close> the plan's \<^verbatim>\<open>riskAnalysis\<close>, declared a
  string, is the number 5.
\<close>

theorem sanitizer_fails_on_null_payloads:
  "validateAndSanitizePlan JNull ''Plan'' = Inl TypeError \<and>
   validateAndSanitizePlan (JObj [(''allocations'', JArr [JNull])]) ''Plan'' = Inl TypeError \<and>
   validateAndSanitizePlan (JObj [(''projections'', JArr [JNull])]) ''Plan'' = Inl TypeError \<and>
   map_sum id riskAnalysis
     (validateAndSanitizePlan (JObj [(''riskAnalysis'', JNum 5)]) ''Plan'') = Inr (JNum 5)"
  by (simp add: validateAndSanitizePlan_def sanitizeAllocations_def sanitizeProjections_def
      getProp_def nullish_def keepAllocation_def keepProjection_def orElse_def)

text \<open>
  C10 states that an element of \<^verbatim>\<open>allocations\<close> (of \<^verbatim>\<open>projections\<close>) that is not an
  object is silently dropped. The element \<^verbatim>\<open>null\<close> is not dropped: the filter callback
  throws on it, whatever else the list holds, and no plan is returned.
\<close>

theorem null_entry_is_not_dropped:
  "sanitizeAllocations
     (JObj [(''allocations'',
        JArr [JNull, JObj [(''ticker'', JStr ''VTI''), (''percentage'', JNum 60)]])])
     = Inl TypeError \<and>
   sanitizeProjections
     (JObj [(''projections'', JArr [JObj [(''year'', JNum 1)], JNull])]) = Inl TypeError \<and>
   validateAndSanitizePlan
     (JObj [(''allocations'',
        JArr [JNull, JObj [(''ticker'', JStr ''VTI''), (''percentage'', JNum 60)]])]) ''Plan''
     = Inl TypeError"
  by (simp add: validateAndSanitizePlan_def sanitizeAllocations_def sanitizeProjections_def
      getProp_def nullish_def keepAllocation_def keepProjection_def)

section \<open>Portfolio analysis\<close>

text \<open>
  C5: the sanitizer never synthesizes a portfolio analysis. The plan it returns holds
  either no value in that field (\<^verbatim>\<open>undefined\<close>) or the payload's own value, unchanged.
  When the payload supplies none (the field is \<^verbatim>\<open>null\<close>, as the prompt asks of the model
  when the profile has no portfolio, or it is missing, or a primitive) the plan has
  none either: the field is \<^verbatim>\<open>null\<close> or \<^verbatim>\<open>undefined\<close>, which every reader of the plan
  tests as falsy; for a \<^verbatim>\<open>null\<close> in the payload it is that \<^verbatim>\<open>null\<close>. The sanitizer
  returns unless one of its two filters throws.
\<close>

theorem portfolioAnalysis_absent_when_not_supplied:
  "case validateAndSanitizePlan data s of
     Inl e \<Rightarrow> sanitizeAllocations data = Inl e \<or> sanitizeProjections data = Inl e
   | Inr p \<Rightarrow>
       (portfolioAnalysis p = JUndefined \<or>
        portfolioAnalysis p = propOf data ''portfolioAnalysis'') \<and>
       (lacksObject (propOf data ''portfolioAnalysis'') \<longrightarrow>
          (portfolioAnalysis p = JNull \<or> portfolioAnalysis p = JUndefined) \<and>
          \<not> truthy (portfolioAnalysis p)) \<and>
       (propOf data ''portfolioAnalysis'' = JNull \<longrightarrow> portfolioAnalysis p = JNull)"
proof (cases "sanitizeAllocations data")
  case (Inl e)
  then show ?thesis by (simp add: validateAndSanitizePlan_def)
next
  case allocs: (Inr items)
  show ?thesis
  proof (cases "sanitizeProjections data")
    case (Inl e)
    with allocs show ?thesis by (simp add: validateAndSanitizePlan_def)
  next
    case (Inr projs)
    with allocs show ?thesis
      by (cases "propOf data ''portfolioAnalysis''")
         (simp_all add: validateAndSanitizePlan_def lacksObject_def)
  qed
qed

theorem portfolioAnalysis_absent_witness:
  "propOf (JObj [(''actionableSteps'', JArr []), (''portfolioAnalysis'', JNull)])
     ''portfolioAnalysis'' = JNull \<and>
   lacksObject JNull \<and>
   map_sum id portfolioAnalysis
     (validateAndSanitizePlan
        (JObj [(''actionableSteps'', JArr []), (''portfolioAnalysis'', JNull)]) ''Plan'')
     = Inr JNull"
proof -
  let ?data = "JObj [(''actionableSteps'', JArr []), (''portfolioAnalysis'', JNull)]"
  have field: "propOf ?data ''portfolioAnalysis'' = JNull"
    by simp
  have lacks: "lacksObject JNull"
    by (simp add: lacksObject_def)
  have allocs: "sanitizeAllocations ?data = Inr []"
    by (simp add: sanitizeAllocations_def getProp_def nullish_def)
  have projs: "sanitizeProjections ?data = Inr []"
    by (simp add: sanitizeProjections_def getProp_def nullish_def)
  have "map_sum id portfolioAnalysis (validateAndSanitizePlan ?data ''Plan'') = Inr JNull"
    using portfolioAnalysis_absent_when_not_supplied [of ?data "''Plan''"] field allocs projs
    by (cases "validateAndSanitizePlan ?data ''Plan''") simp_all
  with field lacks show ?thesis by simp
qed

section \<open>Allocations\<close>

text \<open>
  C7: for every payload whose \<^verbatim>\<open>allocations\<close> field reads as a value that is not an
  array (missing, that is \<open>JUndefined\<close>; \<^verbatim>\<open>null\<close>; an object; a string; a number), the
  allocation list the sanitizer computes is empty, and so is the list of the plan it
  returns. The sanitizer returns unless the filter of the projections throws.
\<close>

theorem non_array_allocations_give_empty_list:
  assumes "getProp data ''allocations'' = Inr v" and "\<not> isArray v"
  shows "sanitizeAllocations data = Inr [] \<and>
    (case validateAndSanitizePlan data s of
       Inr p \<Rightarrow> allocations p = []
     | Inl e \<Rightarrow> sanitizeProjections data = Inl e)"
  using sanitizeAllocations_not_array [OF assms] validate_allocations [of data "[]" s]
  by simp

theorem non_array_allocations_witness:
  "getProp (JObj [(''allocations'', JStr ''VTI 60'')]) ''allocations'' = Inr (JStr ''VTI 60'') \<and>
   \<not> isArray (JStr ''VTI 60'') \<and>
   sanitizeAllocations (JObj [(''allocations'', JStr ''VTI 60'')]) = Inr [] \<and>
   map_sum id allocations
     (validateAndSanitizePlan (JObj [(''allocations'', JStr ''VTI 60'')]) ''Plan'') = Inr []"
proof -
  let ?data = "JObj [(''allocations'', JStr ''VTI 60'')]"
  have field: "getProp ?data ''allocations'' = Inr (JStr ''VTI 60'')"
    by (simp add: getProp_def nullish_def)
  have no_array: "\<not> isArray (JStr ''VTI 60'')"
    by (simp add: isArray_def)
  have projs: "sanitizeProjections ?data = Inr []"
    by (simp add: sanitizeProjections_def getProp_def nullish_def)
  from non_array_allocations_give_empty_list [OF field no_array, of "''Plan''"] projs
  have "sanitizeAllocations ?data = Inr [] \<and>
    map_sum id allocations (validateAndSanitizePlan ?data ''Plan'') = Inr []"
    by (cases "validateAndSanitizePlan ?data ''Plan''") simp_all
  with field no_array show ?thesis by simp
qed

text \<open>
  C8: when \<^verbatim>\<open>allocations\<close> is an array, the sanitized list has one item for each entry
  that passes the filter, in order, and the item of an entry that lacks a
  \<^verbatim>\<open>technicalAnalysis\<close> sub-object (the field is missing, \<^verbatim>\<open>null\<close> or a primitive)
  holds the fixed placeholder record: summary \<^verbatim>\<open>'No technical analysis provided.'\<close>,
  and \<^verbatim>\<open>'-'\<close> for support, resistance and indicatorSignal. The sanitizer returns
  unless an entry of the array is \<^verbatim>\<open>null\<close> or the filter of the projections throws.
\<close>

theorem missing_technicalAnalysis_gets_placeholder:
  assumes "getProp data ''allocations'' = Inr (JArr xs)"
  shows "case validateAndSanitizePlan data s of
      Inl e \<Rightarrow> JNull \<in> set xs \<or> sanitizeProjections data = Inl e
    | Inr p \<Rightarrow>
        length (allocations p) = length (keptAllocations xs) \<and>
        (\<forall>i < length (keptAllocations xs).
           toAllocationItem (keptAllocations xs ! i) = Inr (allocations p ! i) \<and>
           (lacksObject (propOf (keptAllocations xs ! i) ''technicalAnalysis'') \<longrightarrow>
              technicalAnalysis (allocations p ! i) =
                JObj [(''summary'', JStr ''No technical analysis provided.''),
                      (''support'', JStr ''-''), (''resistance'', JStr ''-''),
                      (''indicatorSignal'', JStr ''-'')]))"
proof (cases "JNull \<in> set xs")
  case True
  then have "validateAndSanitizePlan data s = Inl TypeError"
    using sanitizeAllocations_array [OF assms] by (simp add: validate_allocations_fail)
  with True show ?thesis by simp
next
  case False
  let ?items = "map (\<lambda>a. projr (toAllocationItem a)) (keptAllocations xs)"
  have items: "sanitizeAllocations data = Inr ?items"
    using sanitizeAllocations_array [OF assms] False by simp
  have conv: "toAllocationItem (keptAllocations xs ! i) = Inr (?items ! i)"
    if "i < length (keptAllocations xs)" for i
  proof -
    from that have "\<not> nullish (keptAllocations xs ! i)"
      by (intro kept_not_nullish [of _ xs]) simp
    with that show ?thesis by (simp add: toAllocationItem_def)
  qed
  show ?thesis
  proof (cases "validateAndSanitizePlan data s")
    case (Inl e)
    with validate_allocations [OF items, of s] show ?thesis by simp
  next
    case (Inr p)
    with validate_allocations [OF items, of s] have "allocations p = ?items" by simp
    with Inr conv show ?thesis
      by (auto dest: toAllocationItem_placeholder)
  qed
qed

theorem missing_technicalAnalysis_witness:
  "getProp (JObj [(''allocations'', JArr [JObj [(''ticker'', JStr ''VTI'')], JNum 7])])
     ''allocations'' = Inr (JArr [JObj [(''ticker'', JStr ''VTI'')], JNum 7]) \<and>
   keptAllocations [JObj [(''ticker'', JStr ''VTI'')], JNum 7] = [JObj [(''ticker'', JStr ''VTI'')]] \<and>
   lacksObject (propOf (JObj [(''ticker'', JStr ''VTI'')]) ''technicalAnalysis'') \<and>
   map_sum id (map technicalAnalysis \<circ> allocations)
     (validateAndSanitizePlan
        (JObj [(''allocations'', JArr [JObj [(''ticker'', JStr ''VTI'')], JNum 7])]) ''Plan'')
     = Inr [JObj [(''summary'', JStr ''No technical analysis provided.''),
                  (''support'', JStr ''-''), (''resistance'', JStr ''-''),
                  (''indicatorSignal'', JStr ''-'')]]"
proof -
  let ?xs = "[JObj [(''ticker'', JStr ''VTI'')], JNum 7]"
  let ?data = "JObj [(''allocations'', JArr ?xs)]"
  let ?placeholder = "JObj [(''summary'', JStr ''No technical analysis provided.''),
    (''support'', JStr ''-''), (''resistance'', JStr ''-''), (''indicatorSignal'', JStr ''-'')]"
  have field: "getProp ?data ''allocations'' = Inr (JArr ?xs)"
    by (simp add: getProp_def nullish_def)
  have kept: "keptAllocations ?xs = [JObj [(''ticker'', JStr ''VTI'')]]"
    by (simp add: keptAllocations_def keepAllocation_def getProp_def nullish_def)
  have lacks: "lacksObject (propOf (JObj [(''ticker'', JStr ''VTI'')]) ''technicalAnalysis'')"
    by (simp add: lacksObject_def)
  have projs: "sanitizeProjections ?data = Inr []"
    by (simp add: sanitizeProjections_def getProp_def nullish_def)
  have "map_sum id (map technicalAnalysis \<circ> allocations)
      (validateAndSanitizePlan ?data ''Plan'') = Inr [?placeholder]"
  proof (cases "validateAndSanitizePlan ?data ''Plan''")
    case (Inl e)
    with missing_technicalAnalysis_gets_placeholder [OF field, of "''Plan''"] projs
    show ?thesis by simp
  next
    case (Inr p)
    with missing_technicalAnalysis_gets_placeholder [OF field, of "''Plan''"] kept lacks
    have "length (allocations p) = 1"
      and "technicalAnalysis (allocations p ! 0) = ?placeholder"
      by simp_all
    then have "map technicalAnalysis (allocations p) = [?placeholder]"
      by (cases "allocations p") simp_all
    with Inr show ?thesis by simp
  qed
  with field kept lacks show ?thesis by simp
qed

section \<open>Credential verification and reset\<close>

text \<open>
  C3: \<^verbatim>\<open>verifyApiKey\<close> never throws. On the empty string and on every string of white
  space only it returns \<^verbatim>\<open>false\<close> and issues no request. On every other string it
  issues one request and returns \<^verbatim>\<open>true\<close> exactly when the request returned a value
  whose \<^verbatim>\<open>text\<close> is a non-empty string; a failed request and an empty or malformed
  result give \<^verbatim>\<open>false\<close>.
\<close>

theorem verifyApiKey_contract:
  "((\<forall>c \<in> set key. isWhiteSpace c) \<longrightarrow>
      verifyApiKey generateContent key = (Inr False, 0)) \<and>
   (\<not> (\<forall>c \<in> set key. isWhiteSpace c) \<longrightarrow>
      verifyApiKey generateContent key =
        (Inr (\<exists>r t. generateContent key = Inr r \<and> propOf r ''text'' = JStr t \<and> t \<noteq> []), 1))"
proof (cases "\<forall>c \<in> set key. isWhiteSpace c")
  case True
  then have "trim key = []" by (simp add: trim_Nil_iff)
  with True show ?thesis by (simp add: verifyApiKey_def)
next
  case False
  then have "trim key \<noteq> []" by (simp add: trim_Nil_iff)
  moreover from False have "key \<noteq> []" by auto
  ultimately have "verifyApiKey generateContent key =
      (case generateContent key of
         Inl e \<Rightarrow> (Inr False, 1)
       | Inr result \<Rightarrow> (Inr (validResult result), 1))"
    by (simp add: verifyApiKey_def getClient_def)
  with False show ?thesis
    by (cases "generateContent key") (simp_all add: validResult_iff)
qed

theorem verifyApiKey_contract_witness:
  "verifyApiKey (\<lambda>k. Inr (JObj [(''text'', JStr ''ok'')])) [] = (Inr False, 0) \<and>
   verifyApiKey (\<lambda>k. Inr (JObj [(''text'', JStr ''ok'')])) '' '' = (Inr False, 0) \<and>
   verifyApiKey (\<lambda>k. Inr (JObj [(''text'', JStr ''ok'')])) ''key'' = (Inr True, 1) \<and>
   verifyApiKey (\<lambda>k. Inl CallFailed) ''key'' = (Inr False, 1) \<and>
   verifyApiKey (\<lambda>k. Inr (JObj [(''text'', JStr [])])) ''key'' = (Inr False, 1)"
  using verifyApiKey_contract [of "[]" "\<lambda>k. Inr (JObj [(''text'', JStr ''ok'')])"]
    verifyApiKey_contract [of "'' ''" "\<lambda>k. Inr (JObj [(''text'', JStr ''ok'')])"]
    verifyApiKey_contract [of "''key''" "\<lambda>k. Inr (JObj [(''text'', JStr ''ok'')])"]
    verifyApiKey_contract [of "''key''" "\<lambda>k. Inl CallFailed"]
    verifyApiKey_contract [of "''key''" "\<lambda>k. Inr (JObj [(''text'', JStr [])])"]
  by (simp add: isWhiteSpace_def)

text \<open>
  C4, as the code has it: from every state of the application, \<^verbatim>\<open>handleApiKeyClear\<close>
  removes the stored credential, empties the credential cell and discards the current
  plan together with the error and loading flags. It does not touch the chat history:
  the item \<^verbatim>\<open>steward_ai_chat_history\<close> of local storage is unchanged, and the load
  effect of the chat reads after the reset what it read before it.
\<close>

theorem credential_clear_effect:
  "apiKey (handleApiKeyClear s) = None \<and>
   localStorage (handleApiKeyClear s) apiKeyItem = None \<and>
   plan (handleApiKeyClear s) = None \<and>
   error (handleApiKeyClear s) = None \<and>
   loading (handleApiKeyClear s) = False \<and>
   localStorage (handleApiKeyClear s) chatHistoryItem = localStorage s chatHistoryItem \<and>
   loadHistory jsonParse (localStorage (handleApiKeyClear s)) =
     loadHistory jsonParse (localStorage s)"
  by (simp add: handleApiKeyClear_def resetApp_def loadHistory_def apiKeyItem_def
      chatHistoryItem_def)

text \<open>
  C4 as stated fails. Take the storage a chat session leaves behind after one question
  was asked: once the credential is cleared, the load effect of the next chat still
  yields the greeting and that question. The history was not discarded.
\<close>

theorem credential_clear_keeps_chat_history:
  "loadHistory
     (\<lambda>s. if s = ''[greeting, question]''
           then Some (historyValue [greeting, userMessage ''Why bonds?'']) else None)
     [apiKeyItem \<mapsto> ''key''] = historyValue [greeting] \<and>
   loadHistory
     (\<lambda>s. if s = ''[greeting, question]''
           then Some (historyValue [greeting, userMessage ''Why bonds?'']) else None)
     (localStorage (handleApiKeyClear
        \<lparr>apiKey = Some ''key'', plan = None, loading = False, error = None,
         localStorage = snd (chatSession (\<lambda>v. ''[greeting, question]'')
           [greeting] [userMessage ''Why bonds?''] [apiKeyItem \<mapsto> ''key''])\<rparr>))
   = historyValue [greeting, userMessage ''Why bonds?'']"
  by (simp add: handleApiKeyClear_def resetApp_def chatSession_def
      loadHistory_def saveHistory_def appendMessage_def apiKeyItem_def chatHistoryItem_def)

section \<open>The fenced block of a response\<close>

lemma indexOf_ge: "- 1 \<le> indexOf s pat"
  by (induction s) (auto simp: Let_def)

text \<open>No opening fence begins inside a text and ends inside an opening fence after it.\<close>

lemma fence_straddle:
  "n \<noteq> [] \<Longrightarrow> \<not> prefix jsonFence n \<Longrightarrow> \<not> prefix jsonFence (n @ jsonFence @ rest)"
  by (auto simp: prefix_append jsonFence_def Cons_eq_append_conv)

lemma indexOf_fence_here: "indexOf (jsonFence @ rest) jsonFence = 0"
  by (simp add: jsonFence_def)

lemma indexOf_narrative:
  "indexOf n jsonFence = - 1 \<Longrightarrow> indexOf (n @ jsonFence @ rest) jsonFence = int (length n)"
proof (induction n)
  case Nil
  show ?case using indexOf_fence_here by simp
next
  case (Cons x xs)
  from Cons.prems have np: "\<not> prefix jsonFence (x # xs)"
    by (auto split: if_splits)
  with Cons.prems have "indexOf xs jsonFence = - 1"
    using indexOf_ge [of xs jsonFence] by (auto simp: Let_def split: if_splits)
  then have ih: "indexOf (xs @ jsonFence @ rest) jsonFence = int (length xs)"
    by (rule Cons.IH)
  from np have "\<not> prefix jsonFence ((x # xs) @ jsonFence @ rest)"
    by (intro fence_straddle) simp_all
  with ih show ?case by (simp add: Let_def)
qed

lemma lastFence_no_backquote: "CHR 0x60 \<notin> set s \<Longrightarrow> lastFence s = None"
  by (induction s) (auto simp: closingFence_def)

lemma lastFence_closing:
  "CHR 0x60 \<notin> set rest \<Longrightarrow> lastFence (closingFence @ rest) = Some 0"
  by (cases rest) (auto simp: closingFence_def lastFence_no_backquote)

lemma lastFence_body:
  "CHR 0x60 \<notin> set rest \<Longrightarrow> lastFence (body @ closingFence @ rest) = Some (length body)"
  by (induction body) (simp_all add: lastFence_closing)

lemma matchJsonBlock_fenced:
  assumes "indexOf n jsonFence = - 1" and "CHR 0x60 \<notin> set rest"
  shows "matchJsonBlock (n @ jsonFence @ body @ closingFence @ rest) = Some body"
  using indexOf_narrative [OF assms(1), of "body @ closingFence @ rest"] assms(2)
  by (simp add: matchJsonBlock_def Let_def lastFence_body)

lemma substring_narrative: "substring (n @ rest) 0 (int (length n)) = n"
  by (simp add: substring_def Let_def)

lemma indexOf_split:
  "indexOf t pat = int i \<Longrightarrow> t = take i t @ pat @ drop (i + length pat) t"
proof (induction t arbitrary: i)
  case Nil
  then show ?case by (simp split: if_splits)
next
  case (Cons c cs)
  show ?case
  proof (cases "prefix pat (c # cs)")
    case True
    with Cons.prems have "i = 0" by simp
    with True show ?thesis by (auto simp: prefix_def)
  next
    case False
    with Cons.prems have j: "indexOf cs pat = int (i - 1)" and i: "0 < i"
      by (auto simp: Let_def split: if_splits)
    from Cons.IH [OF j] i show ?thesis
      by (cases i) simp_all
  qed
qed

lemma indexOf_found:
  "0 \<le> indexOf (a @ pat @ r) pat \<and> indexOf (a @ pat @ r) pat \<le> int (length a)"
proof (induction a)
  case Nil
  have "prefix pat (pat @ r)" by simp
  then show ?case by (cases "pat @ r") (simp_all add: Let_def)
next
  case (Cons x xs)
  then show ?case by (auto simp: Let_def)
qed

lemma lastFence_split:
  "lastFence s = Some j \<Longrightarrow> s = take j s @ closingFence @ drop (j + length closingFence) s"
proof (induction s arbitrary: j)
  case Nil
  then show ?case by simp
next
  case (Cons c cs)
  show ?case
  proof (cases "lastFence cs")
    case None
    with Cons.prems have "j = 0" and "prefix closingFence (c # cs)"
      by (auto split: if_splits)
    then show ?thesis by (auto simp: prefix_def)
  next
    case (Some k)
    with Cons.prems have "j = Suc k" by simp
    with Cons.IH [OF Some] show ?thesis by simp
  qed
qed

lemma lastFence_found: "lastFence (x @ closingFence @ y) \<noteq> None"
proof (induction x)
  case Nil
  show ?case
    by (cases "lastFence (tl (closingFence @ y))") (auto simp: closingFence_def)
next
  case (Cons c cs)
  then show ?case by (auto split: option.splits)
qed

lemma fence_not_prefix_short: "length n < length jsonFence \<Longrightarrow> \<not> prefix jsonFence n"
  by (auto dest: prefix_length_le)

lemma jsonFence_closing: "jsonFence = closingFence @ ''json''"
  by (simp add: jsonFence_def closingFence_def)

text \<open>
  The pattern matches exactly the texts that hold an opening fence with a closing fence
  somewhere after it.
\<close>

lemma matchJsonBlock_Some_iff:
  "(\<exists>block. matchJsonBlock t = Some block) \<longleftrightarrow>
   (\<exists>a b c. t = a @ jsonFence @ b @ closingFence @ c)"
proof
  assume "\<exists>block. matchJsonBlock t = Some block"
  then obtain block where m: "matchJsonBlock t = Some block" ..
  define i where "i = nat (indexOf t jsonFence)"
  from m have pos: "0 \<le> indexOf t jsonFence"
    by (auto simp: matchJsonBlock_def Let_def split: if_splits)
  then have "indexOf t jsonFence = int i" by (simp add: i_def)
  then have t: "t = take i t @ jsonFence @ drop (i + length jsonFence) t"
    by (rule indexOf_split)
  from m pos obtain j where "lastFence (drop (i + length jsonFence) t) = Some j"
    by (auto simp: matchJsonBlock_def Let_def i_def split: if_splits option.splits)
  then have "drop (i + length jsonFence) t =
      take j (drop (i + length jsonFence) t) @ closingFence @
      drop (j + length closingFence) (drop (i + length jsonFence) t)"
    by (rule lastFence_split)
  with t show "\<exists>a b c. t = a @ jsonFence @ b @ closingFence @ c"
    by metis
next
  assume "\<exists>a b c. t = a @ jsonFence @ b @ closingFence @ c"
  then obtain a b c where t: "t = a @ jsonFence @ b @ closingFence @ c" by blast
  define i where "i = nat (indexOf t jsonFence)"
  have bounds: "0 \<le> indexOf t jsonFence" "indexOf t jsonFence \<le> int (length a)"
    using indexOf_found [of a jsonFence "b @ closingFence @ c"] by (simp_all add: t)
  then have ii: "indexOf t jsonFence = int i" and ia: "i \<le> length a"
    by (simp_all add: i_def)
  from ii have split: "t = take i t @ jsonFence @ drop (i + length jsonFence) t"
    by (rule indexOf_split)
  have "\<exists>x y. drop (i + length jsonFence) t = x @ closingFence @ y"
  proof (cases "i = length a")
    case True
    then show ?thesis by (auto simp: t)
  next
    case False
    with ia have lt: "i < length a" by simp
    have far: "i + length jsonFence \<le> length a"
    proof (rule ccontr)
      assume "\<not> i + length jsonFence \<le> length a"
      with lt have short: "length (drop i a) < length jsonFence" by simp
      from lt have ne: "drop i a \<noteq> []" by simp
      have "drop i t = drop i a @ jsonFence @ b @ closingFence @ c"
        using lt by (simp add: t)
      moreover have "drop i t = jsonFence @ drop (i + length jsonFence) t"
      proof -
        have "length (take i t) = i" using lt by (simp add: t)
        then show ?thesis
          by (metis split append_eq_conv_conj)
      qed
      ultimately have "prefix jsonFence (drop i a @ jsonFence @ b @ closingFence @ c)"
        by (metis prefixI)
      with fence_straddle [OF ne fence_not_prefix_short [OF short]] show False by blast
    qed
    then have "drop (i + length jsonFence) t =
        drop (i + length jsonFence) a @ closingFence @ (''json'' @ b @ closingFence @ c)"
      by (simp add: t jsonFence_closing)
    then show ?thesis by blast
  qed
  then obtain x y where "drop (i + length jsonFence) t = x @ closingFence @ y" by blast
  then have "lastFence (drop (i + length jsonFence) t) \<noteq> None"
    by (simp add: lastFence_found)
  with bounds(1) show "\<exists>block. matchJsonBlock t = Some block"
    by (auto simp: matchJsonBlock_def Let_def i_def)
qed

section \<open>Plan generation\<close>

lemma generate_planFromResponse:
  "key \<noteq> [] \<Longrightarrow> generateContent key profile = Inr r \<Longrightarrow>
   generateInvestmentStrategy jsonParse generateContent profile key = planFromResponse jsonParse r"
  by (simp add: generateInvestmentStrategy_def getClient_def)

text \<open>
  C2: let the request return a response with a text (a non-empty string; an absent or
  empty text is the separate empty-response error of the source). If no fenced block is
  found in the text (the pattern does not match, or its group is empty), or if
  \<^verbatim>\<open>JSON.parse\<close> rejects the trimmed text of the block, then
  \<^verbatim>\<open>generateInvestmentStrategy\<close> fails with a malformed-response error: the one of the
  missing block in the first case, the one of the malformed data in the second. The
  result is that error and nothing else: no plan, partial or not, is returned.
\<close>

theorem malformed_response_fails:
  assumes "key \<noteq> []"
    and "generateContent key profile = Inr r"
    and "responseText r = Some t" and "t \<noteq> []"
    and "matchJsonBlock t = None \<or> matchJsonBlock t = Some [] \<or>
         (\<exists>block. matchJsonBlock t = Some block \<and> jsonParse (trim block) = None)"
  shows "generateInvestmentStrategy jsonParse generateContent profile key =
           Inl (if matchJsonBlock t = None \<or> matchJsonBlock t = Some []
                then NoJsonBlock else MalformedData)"
proof -
  have "planFromResponse jsonParse r =
          Inl (if matchJsonBlock t = None \<or> matchJsonBlock t = Some []
               then NoJsonBlock else MalformedData)"
    using assms(3-5) by (auto simp: planFromResponse_def Let_def)
  with assms(1,2) show ?thesis by (simp add: generate_planFromResponse)
qed

theorem malformed_response_witness:
  "matchJsonBlock ''Your plan, without a block.'' = None \<and>
   generateInvestmentStrategy (\<lambda>s. None)
     (\<lambda>k p. Inr \<lparr>responseText = Some ''Your plan, without a block.'', groundingChunks = None\<rparr>)
     () ''key'' = Inl NoJsonBlock \<and>
   matchJsonBlock (''Your plan. '' @ jsonFence @ ''{oops'' @ closingFence) = Some ''{oops'' \<and>
   generateInvestmentStrategy (\<lambda>s. None)
     (\<lambda>k p. Inr \<lparr>responseText = Some (''Your plan. '' @ jsonFence @ ''{oops'' @ closingFence),
                  groundingChunks = None\<rparr>)
     () ''key'' = Inl MalformedData"
proof -
  let ?plain = "''Your plan, without a block.''"
  let ?fenced = "''Your plan. '' @ jsonFence @ ''{oops'' @ closingFence"
  let ?parse = "\<lambda>s::string. None :: jsval option"
  have key: "''key'' \<noteq> []" by simp
  have no_block: "matchJsonBlock ?plain = None"
    by (simp add: matchJsonBlock_def jsonFence_def Let_def)
  have "indexOf ''Your plan. '' jsonFence = - 1"
    by (simp add: jsonFence_def Let_def)
  then have block: "matchJsonBlock ?fenced = Some ''{oops''"
    using matchJsonBlock_fenced [of "''Your plan. ''" "[]" "''{oops''"] by simp
  have first: "generateInvestmentStrategy ?parse
      (\<lambda>k p. Inr \<lparr>responseText = Some ?plain, groundingChunks = None\<rparr>) () ''key''
      = Inl NoJsonBlock"
    using malformed_response_fails [of "''key''"
        "\<lambda>k p. Inr \<lparr>responseText = Some ?plain, groundingChunks = None\<rparr>" "()"
        "\<lparr>responseText = Some ?plain, groundingChunks = None\<rparr>" ?plain ?parse]
      key no_block
    by simp
  have second: "generateInvestmentStrategy ?parse
      (\<lambda>k p. Inr \<lparr>responseText = Some ?fenced, groundingChunks = None\<rparr>) () ''key''
      = Inl MalformedData"
    using malformed_response_fails [of "''key''"
        "\<lambda>k p. Inr \<lparr>responseText = Some ?fenced, groundingChunks = None\<rparr>" "()"
        "\<lparr>responseText = Some ?fenced, groundingChunks = None\<rparr>" ?fenced ?parse]
      key block
    by simp
  from no_block first block second show ?thesis by simp
qed

text \<open>
  C9: let the response text be a narrative (with some text other than white space, and
  no opening fence in it) followed by a fenced block, with no backquote after the block
  (the prompt asks for no text there; a line end may follow), and let
  \<^verbatim>\<open>JSON.parse\<close> read the block as a payload whose \<^verbatim>\<open>allocations\<close> are
  \<^verbatim>\<open>[{"ticker":"VTI","percentage":60}]\<close> and whose \<^verbatim>\<open>projections\<close>, if a list, have
  no \<^verbatim>\<open>null\<close> entry. Then \<^verbatim>\<open>generateInvestmentStrategy\<close> returns a plan whose summary
  is the trimmed narrative and whose allocations are exactly one item: ticker
  \<^verbatim>\<open>"VTI"\<close>, percentage 60, and every other field at its default: name and sector
  \<^verbatim>\<open>'N/A'\<close>, type \<^verbatim>\<open>'ETF'\<close>, rationale \<^verbatim>\<open>'No rationale provided.'\<close>, account
  \<^verbatim>\<open>'Brokerage'\<close>, no dividend yield, the technical analysis with summary
  \<^verbatim>\<open>'No technical analysis provided.'\<close> and \<^verbatim>\<open>'-'\<close> for support, resistance and
  indicatorSignal, and the market sentiment with score \<^verbatim>\<open>'Neutral'\<close>, summary
  \<^verbatim>\<open>'No sentiment analysis provided.'\<close> and analystRating \<^verbatim>\<open>'-'\<close>.
\<close>

theorem vti_scenario:
  assumes "key \<noteq> []"
    and "generateContent key profile = Inr r"
    and "responseText r = Some (narrative @ jsonFence @ body @ closingFence @ trailing)"
    and "CHR 0x60 \<notin> set trailing"
    and "indexOf narrative jsonFence = - 1"
    and "trim narrative \<noteq> []"
    and "body \<noteq> []"
    and "jsonParse (trim body) = Some payload"
    and "getProp payload ''allocations'' =
           Inr (JArr [JObj [(''ticker'', JStr ''VTI''), (''percentage'', JNum 60)]])"
    and "\<forall>ps. propOf payload ''projections'' = JArr ps \<longrightarrow> JNull \<notin> set ps"
  shows "\<exists>p. generateInvestmentStrategy jsonParse generateContent profile key = Inr p \<and>
     summary p = trim narrative \<and>
     allocations p =
       [\<lparr>ticker = JStr ''VTI'', name = JStr ''N/A'', sector = JStr ''N/A'',
         percentage = JNum 60, type = JStr ''ETF'',
         rationale = JStr ''No rationale provided.'', accountType = JStr ''Brokerage'',
         dividendYield = JUndefined,
         technicalAnalysis =
           JObj [(''summary'', JStr ''No technical analysis provided.''),
                 (''support'', JStr ''-''), (''resistance'', JStr ''-''),
                 (''indicatorSignal'', JStr ''-'')],
         marketSentiment =
           JObj [(''score'', JStr ''Neutral''),
                 (''summary'', JStr ''No sentiment analysis provided.''),
                 (''analystRating'', JStr ''-'')]\<rparr>]"
proof -
  let ?t = "narrative @ jsonFence @ body @ closingFence @ trailing"
  let ?item = "\<lparr>ticker = JStr ''VTI'', name = JStr ''N/A'', sector = JStr ''N/A'',
         percentage = JNum 60, type = JStr ''ETF'',
         rationale = JStr ''No rationale provided.'', accountType = JStr ''Brokerage'',
         dividendYield = JUndefined,
         technicalAnalysis =
           JObj [(''summary'', JStr ''No technical analysis provided.''),
                 (''support'', JStr ''-''), (''resistance'', JStr ''-''),
                 (''indicatorSignal'', JStr ''-'')],
         marketSentiment =
           JObj [(''score'', JStr ''Neutral''),
                 (''summary'', JStr ''No sentiment analysis provided.''),
                 (''analystRating'', JStr ''-'')]\<rparr>"
  have idx: "indexOf ?t jsonFence = int (length narrative)"
    using assms(5) by (rule indexOf_narrative)
  have sub: "trim (substring ?t 0 (indexOf ?t jsonFence)) = trim narrative"
    by (simp add: idx substring_narrative)
  have blk: "matchJsonBlock ?t = Some body"
    using assms(5,4) by (rule matchJsonBlock_fenced)
  have nn: "\<not> nullish payload"
    using assms(9) by (auto simp: getProp_def split: if_splits)
  have allocs: "sanitizeAllocations payload = Inr [?item]"
    using assms(9)
    by (simp add: sanitizeAllocations_def keepAllocation_def getProp_def nullish_def
        toAllocationItem_def orElse_def objectAndTruthy_def
        defaultTechnicalAnalysis_def defaultMarketSentiment_def)
  obtain projs where projs: "sanitizeProjections payload = Inr projs"
    using nn assms(10)
    by (cases "propOf payload ''projections''")
       (auto simp: sanitizeProjections_def getProp_def filterE_keepProjection)
  have "\<exists>p. validateAndSanitizePlan payload (trim narrative) = Inr p \<and>
      summary p = trim narrative \<and> allocations p = projr (sanitizeAllocations payload)"
    using assms(6) by (simp add: validateAndSanitizePlan_def allocs projs)
  then obtain p where p: "validateAndSanitizePlan payload (trim narrative) = Inr p"
    "summary p = trim narrative" "allocations p = projr (sanitizeAllocations payload)"
    by blast
  have "planFromResponse jsonParse r =
      Inr (p\<lparr>sources := groundingSources (groundingChunks r)\<rparr>)"
    using assms(3,7,8) p(1) by (simp add: planFromResponse_def Let_def blk sub)
  with assms(1,2) p(2,3) allocs show ?thesis
    by (simp add: generate_planFromResponse)
qed

theorem vti_scenario_witness:
  "map_sum id (\<lambda>p. (summary p, allocations p))
     (generateInvestmentStrategy
        (\<lambda>s. if s = ''{VTI 60}''
              then Some (JObj [(''allocations'',
                     JArr [JObj [(''ticker'', JStr ''VTI''), (''percentage'', JNum 60)]])])
              else None)
        (\<lambda>k p. Inr \<lparr>responseText =
                    Some (''Your plan. '' @ [CHR 0x60, CHR 0x60, CHR 0x60] @ ''json'' @
                      '' {VTI 60} '' @ [CHR 0x60, CHR 0x60, CHR 0x60, CHR 0x0A]),
                  groundingChunks = None\<rparr>)
        () ''key'')
   = Inr (''Your plan.'',
       [\<lparr>ticker = JStr ''VTI'', name = JStr ''N/A'', sector = JStr ''N/A'',
         percentage = JNum 60, type = JStr ''ETF'',
         rationale = JStr ''No rationale provided.'', accountType = JStr ''Brokerage'',
         dividendYield = JUndefined,
         technicalAnalysis =
           JObj [(''summary'', JStr ''No technical analysis provided.''),
                 (''support'', JStr ''-''), (''resistance'', JStr ''-''),
                 (''indicatorSignal'', JStr ''-'')],
         marketSentiment =
           JObj [(''score'', JStr ''Neutral''),
                 (''summary'', JStr ''No sentiment analysis provided.''),
                 (''analystRating'', JStr ''-'')]\<rparr>])"
proof -
  let ?payload = "JObj [(''allocations'',
    JArr [JObj [(''ticker'', JStr ''VTI''), (''percentage'', JNum 60)]])]"
  let ?parse = "\<lambda>s. if s = ''{VTI 60}'' then Some ?payload else None"
  let ?r = "\<lparr>responseText =
               Some (''Your plan. '' @ [CHR 0x60, CHR 0x60, CHR 0x60] @ ''json'' @
                 '' {VTI 60} '' @ [CHR 0x60, CHR 0x60, CHR 0x60, CHR 0x0A]),
             groundingChunks = None\<rparr>"
  let ?call = "\<lambda>(k::string) (p::unit). Inr ?r :: error + GenerateContentResponse"
  have key: "''key'' \<noteq> []" by simp
  have call: "?call ''key'' () = Inr ?r" by simp
  have resp: "responseText ?r =
      Some (''Your plan. '' @ jsonFence @ '' {VTI 60} '' @ closingFence @ [CHR 0x0A])"
    by (simp add: jsonFence_def closingFence_def)
  have after: "CHR 0x60 \<notin> set [CHR 0x0A]"
    by simp
  have no_fence: "indexOf ''Your plan. '' jsonFence = - 1"
    by (simp add: jsonFence_def Let_def)
  have trimmed: "trim ''Your plan. '' = ''Your plan.''"
    by (simp add: trim_def isWhiteSpace_def)
  then have narrative: "trim ''Your plan. '' \<noteq> []" by simp
  have body: "'' {VTI 60} '' \<noteq> []" by simp
  have parsed: "?parse (trim '' {VTI 60} '') = Some ?payload"
    by (simp add: trim_def isWhiteSpace_def)
  have allocs: "getProp ?payload ''allocations'' =
      Inr (JArr [JObj [(''ticker'', JStr ''VTI''), (''percentage'', JNum 60)]])"
    by (simp add: getProp_def nullish_def)
  have projs: "\<forall>ps. propOf ?payload ''projections'' = JArr ps \<longrightarrow> JNull \<notin> set ps"
    by simp
  from vti_scenario [of "''key''" ?call "()" ?r "''Your plan. ''" "'' {VTI 60} ''"
      "[CHR 0x0A]" ?parse ?payload,
      OF key call resp after no_fence narrative body parsed allocs projs]
  obtain p where "generateInvestmentStrategy ?parse ?call () ''key'' = Inr p"
    and "summary p = trim ''Your plan. ''"
    and "allocations p =
       [\<lparr>ticker = JStr ''VTI'', name = JStr ''N/A'', sector = JStr ''N/A'',
         percentage = JNum 60, type = JStr ''ETF'',
         rationale = JStr ''No rationale provided.'', accountType = JStr ''Brokerage'',
         dividendYield = JUndefined,
         technicalAnalysis =
           JObj [(''summary'', JStr ''No technical analysis provided.''),
                 (''support'', JStr ''-''), (''resistance'', JStr ''-''),
                 (''indicatorSignal'', JStr ''-'')],
         marketSentiment =
           JObj [(''score'', JStr ''Neutral''),
                 (''summary'', JStr ''No sentiment analysis provided.''),
                 (''analystRating'', JStr ''-'')]\<rparr>]"
    by blast
  with trimmed show ?thesis by simp
qed

section \<open>Chat history\<close>

lemma appendMessages_eq:
  "appendMessages jsonStringify ms (h, st) =
     (h @ ms,
      if ms = [] then st else st(chatHistoryItem \<mapsto> jsonStringify (historyValue (h @ ms))))"
proof (induction ms arbitrary: h st)
  case Nil
  show ?case by simp
next
  case (Cons m ms)
  show ?case
    by (auto simp: appendMessage_def saveHistory_def Let_def Cons.IH fun_eq_iff)
qed

text \<open>A message is determined by its object: role, text and sources can be read back.\<close>

lemma sourceObject_inj: "sourceObject a = sourceObject b \<Longrightarrow> a = b"
  by (cases a; cases b) (simp add: sourceObject_def)

lemma map_sourceObject_inj: "map sourceObject xs = map sourceObject ys \<Longrightarrow> xs = ys"
proof -
  assume "map sourceObject xs = map sourceObject ys"
  moreover have "inj sourceObject"
    by (rule injI) (rule sourceObject_inj)
  ultimately show "xs = ys"
    by (simp add: inj_map_eq_map)
qed

lemma roleName_inj: "roleName a = roleName b \<Longrightarrow> a = b"
  by (cases a; cases b) (simp_all add: roleName_def)

lemma messageObject_inj: "messageObject a = messageObject b \<Longrightarrow> a = b"
  by (cases a; cases b)
     (auto simp: messageObject_def split: option.splits
        dest: roleName_inj map_sourceObject_inj)

lemma historyValue_inj: "historyValue xs = historyValue ys \<Longrightarrow> xs = ys"
proof -
  assume "historyValue xs = historyValue ys"
  then have "map messageObject xs = map messageObject ys"
    by (simp add: historyValue_def)
  moreover have "inj messageObject"
    by (rule injI) (rule messageObject_inj)
  ultimately show "xs = ys"
    by (simp add: inj_map_eq_map)
qed

text \<open>
  C6: a session starts with the messages \<open>h\<close> its load effect read from the storage
  (the greeting in a fresh browser) and appends the \<open>N\<close> messages \<open>ms\<close> one by one, the
  save effect persisting the history after each. If \<^verbatim>\<open>JSON.parse\<close> reads back what
  \<^verbatim>\<open>JSON.stringify\<close> wrote for the final history (the contract of the runtime for
  such data; the written text is not empty), then the messages of the session are
  \<open>h\<close> followed by \<open>ms\<close>, and the load effect of a new session on the storage left
  behind yields the array of exactly these messages: any list of messages it is the
  value of is \<open>h @ ms\<close>, the same messages with the same role, text and sources, in the
  same order.
\<close>

theorem chat_history_round_trip:
  assumes "loadHistory jsonParse st = historyValue h"
    and "jsonParse (jsonStringify (historyValue (h @ ms))) = Some (historyValue (h @ ms))"
    and "jsonStringify (historyValue (h @ ms)) \<noteq> []"
  shows "fst (chatSession jsonStringify h ms st) = h @ ms \<and>
    loadHistory jsonParse (snd (chatSession jsonStringify h ms st)) = historyValue (h @ ms) \<and>
    (\<forall>h'. loadHistory jsonParse (snd (chatSession jsonStringify h ms st)) = historyValue h'
        \<longrightarrow> h' = h @ ms)"
proof -
  let ?mounted = "saveHistory jsonStringify h st"
  let ?st' = "if ms = [] then ?mounted
              else ?mounted(chatHistoryItem \<mapsto> jsonStringify (historyValue (h @ ms)))"
  have session: "chatSession jsonStringify h ms st = (h @ ms, ?st')"
    by (simp add: chatSession_def appendMessages_eq)
  have loaded: "loadHistory jsonParse ?st' = historyValue (h @ ms)"
  proof (cases "h @ ms = []")
    case True
    then have "?st' = st" by (simp add: saveHistory_def)
    with True assms(1) show ?thesis by simp
  next
    case False
    then have "?st' chatHistoryItem = Some (jsonStringify (historyValue (h @ ms)))"
      by (auto simp: saveHistory_def)
    with assms(2,3) show ?thesis by (simp add: loadHistory_def)
  qed
  have "h' = h @ ms" if "loadHistory jsonParse ?st' = historyValue h'" for h'
    using that loaded by (simp add: historyValue_inj)
  with session loaded show ?thesis by simp
qed

theorem chat_history_round_trip_witness:
  "loadHistory
     (\<lambda>s. if s = ''[greeting, question, answer]''
           then Some (historyValue [greeting, userMessage ''Why bonds?'',
             modelMessage ''They steady it.''
               [\<lparr>title = ''Bonds'', url = ''https://example.org''\<rparr>]])
           else None)
     Map.empty = historyValue [greeting] \<and>
   fst (chatSession (\<lambda>v. ''[greeting, question, answer]'') [greeting]
        [userMessage ''Why bonds?'',
         modelMessage ''They steady it.''
           [\<lparr>title = ''Bonds'', url = ''https://example.org''\<rparr>]] Map.empty)
     = [greeting, userMessage ''Why bonds?'',
        modelMessage ''They steady it.'' [\<lparr>title = ''Bonds'', url = ''https://example.org''\<rparr>]] \<and>
   loadHistory
     (\<lambda>s. if s = ''[greeting, question, answer]''
           then Some (historyValue [greeting, userMessage ''Why bonds?'',
             modelMessage ''They steady it.''
               [\<lparr>title = ''Bonds'', url = ''https://example.org''\<rparr>]])
           else None)
     (snd (chatSession (\<lambda>v. ''[greeting, question, answer]'') [greeting]
        [userMessage ''Why bonds?'',
         modelMessage ''They steady it.''
           [\<lparr>title = ''Bonds'', url = ''https://example.org''\<rparr>]] Map.empty))
   = historyValue [greeting, userMessage ''Why bonds?'',
       modelMessage ''They steady it.'' [\<lparr>title = ''Bonds'', url = ''https://example.org''\<rparr>]]"
proof -
  let ?ms = "[userMessage ''Why bonds?'',
    modelMessage ''They steady it.'' [\<lparr>title = ''Bonds'', url = ''https://example.org''\<rparr>]]"
  let ?parse = "\<lambda>s. if s = ''[greeting, question, answer]''
                     then Some (historyValue (greeting # ?ms)) else None"
  let ?stringify = "\<lambda>v::jsval. ''[greeting, question, answer]''"
  have loaded: "loadHistory ?parse Map.empty = historyValue [greeting]"
    by (simp add: loadHistory_def)
  have round: "?parse (?stringify (historyValue ([greeting] @ ?ms))) =
      Some (historyValue ([greeting] @ ?ms))"
    by simp
  have nonempty: "?stringify (historyValue ([greeting] @ ?ms)) \<noteq> []"
    by simp
  from chat_history_round_trip [OF loaded round nonempty]
  have "fst (chatSession ?stringify [greeting] ?ms Map.empty) = [greeting] @ ?ms"
    and "loadHistory ?parse (snd (chatSession ?stringify [greeting] ?ms Map.empty)) =
      historyValue ([greeting] @ ?ms)"
    by simp_all
  with loaded show ?thesis by simp
qed

end
